theory Spec2Isabelle
  imports Complex_Main
begin

section \<open>The temperature tower controller\<close>

text \<open>
  A shallow embedding of \<^verbatim>\<open>TempTowerController\<close> (TempTowerController.py).

  \<^item> Python numbers (the layer height, the temperatures, the heights sent to OpenSCAD) are
    exact reals here; the rounding of binary floating point, infinities and NaN are not
    represented. \<^verbatim>\<open>math.ceil\<close> is \<open>ceiling\<close>, and its result is an unbounded
    \<open>int\<close> as in Python.
  \<^item> The controller object is a record that every method takes and returns. A raised
    exception does not undo the assignments made before it, so a method returns the
    controller as the raise left it together with what happened (\<open>outcome\<close>).
  \<^item> The instance attribute \<^verbatim>\<open>_sectionLayers\<close> is not created by the constructor;
    it is an \<open>int option\<close>, \<open>None\<close> while the attribute does not exist.
  \<^item> The builtin \<^verbatim>\<open>float\<close> is the parameter \<open>pyfloat\<close>: \<open>None\<close> where the builtin
    raises ValueError. The layer height queried from the host, the preset table and the
    post-processing script are parameters as well, so every property holds whatever they
    are.
\<close>

subsection \<open>Values, errors and effects\<close>

datatype py_error = ValueError | ZeroDivisionError | AttributeError

text \<open>A scalar of the OpenSCAD parameter dictionary: a number or a string.\<close>

datatype pyval = PyNum real | PyStr string

text \<open>
  How a method ends:
  \<^item> \<open>Raised e\<close>: the exception \<open>e\<close> leaves the method;
  \<^item> \<open>Logged level msg\<close>: \<^verbatim>\<open>Logger.log(level, msg)\<close> followed by \<^verbatim>\<open>return\<close>;
  \<^item> \<open>LoadStl dir file\<close>: \<^verbatim>\<open>_loadStlCallback(os.path.join(dir, file), self.postProcess)\<close>;
  \<^item> \<open>GenerateAndLoadStl file params\<close>:
    \<^verbatim>\<open>_generateAndLoadStlCallback(file, params, self.postProcess)\<close>;
  \<^item> \<open>ShowSettingsDialog\<close>: \<^verbatim>\<open>self._settingsDialog.show()\<close>.
\<close>

datatype outcome =
    Raised py_error
  | Logged string string
  | LoadStl string string
  | GenerateAndLoadStl string "string \<rightharpoonup> pyval"
  | ShowSettingsDialog

subsection \<open>The controller and its constants\<close>

record controller =
  self_guiPath :: string
  self_stlPath :: string
  self_startTemperature :: real
  self_temperatureChange :: real
  self_baseLayers :: int
  self_sectionLayers :: "int option"
  self_startTemperatureStr :: string
  self_endTemperatureStr :: string
  self_temperatureChangeStr :: string
  self_materialLabelStr :: string
  self_towerDescriptionStr :: string

definition openScadFilename :: string where
  "openScadFilename = ''temptower.scad''"

definition nominalBaseHeight :: real where
  "nominalBaseHeight = 0.8"

definition nominalSectionHeight :: real where
  "nominalSectionHeight = 8.0"

text \<open>
  An entry of the preset table: a dictionary read at the three keys
  \<^verbatim>\<open>'filename'\<close>, \<^verbatim>\<open>'start value'\<close> and \<^verbatim>\<open>'change value'\<close>; a field is
  \<open>None\<close> when the key is absent (the lookup raises KeyError).
\<close>

record preset_entry =
  filename :: "string option"
  start_value :: "real option"
  change_value :: "real option"

type_synonym preset_tables = "string \<rightharpoonup> preset_entry"

definition preset :: "string \<Rightarrow> real \<Rightarrow> real \<Rightarrow> preset_entry" where
  "preset f s c = \<lparr>filename = Some f, start_value = Some s, change_value = Some c\<rparr>"

definition presetTables :: preset_tables where
  "presetTables = map_of
     [(''aba'', preset ''temptower-aba.stl'' 260 5),
      (''abs'', preset ''temptower-abs.stl'' 250 5),
      (''nylon'', preset ''temptower-nylon.stl'' 260 5),
      (''pc'', preset ''temptower-pc.stl'' 310 5),
      (''petg'', preset ''temptower-petg.stl'' 250 5),
      (''pla'', preset ''temptower-pla.stl'' 230 5),
      (''pla+'', preset ''temptower-pla+.stl'' 230 5),
      (''tpu'', preset ''temptower-tpu.stl'' 230 5)]"

text \<open>
  \<^verbatim>\<open>__init__\<close>: the three numeric attributes are set to 0, \<^verbatim>\<open>_sectionLayers\<close> is not
  set; the dialog strings are the class attributes' defaults.
\<close>

definition init :: "string \<Rightarrow> string \<Rightarrow> controller" where
  "init guiPath stlPath =
     \<lparr>self_guiPath = guiPath,
      self_stlPath = stlPath,
      self_startTemperature = 0,
      self_temperatureChange = 0,
      self_baseLayers = 0,
      self_sectionLayers = None,
      self_startTemperatureStr = ''220'',
      self_endTemperatureStr = ''180'',
      self_temperatureChangeStr = ''-5'',
      self_materialLabelStr = [],
      self_towerDescriptionStr = []\<rparr>"

text \<open>The property setters (the change signals are not modelled).\<close>

definition setStartTemperatureStr :: "string \<Rightarrow> controller \<Rightarrow> controller" where
  "setStartTemperatureStr v c = c\<lparr>self_startTemperatureStr := v\<rparr>"

definition setEndTemperatureStr :: "string \<Rightarrow> controller \<Rightarrow> controller" where
  "setEndTemperatureStr v c = c\<lparr>self_endTemperatureStr := v\<rparr>"

definition setTemperatureChangeStr :: "string \<Rightarrow> controller \<Rightarrow> controller" where
  "setTemperatureChangeStr v c = c\<lparr>self_temperatureChangeStr := v\<rparr>"

definition setMaterialLabelStr :: "string \<Rightarrow> controller \<Rightarrow> controller" where
  "setMaterialLabelStr v c = c\<lparr>self_materialLabelStr := v\<rparr>"

definition setTowerDescriptionStr :: "string \<Rightarrow> controller \<Rightarrow> controller" where
  "setTowerDescriptionStr v c = c\<lparr>self_towerDescriptionStr := v\<rparr>"

subsection \<open>Layer counts\<close>

text \<open>
  \<^verbatim>\<open>math.ceil(nominal / layerHeight)\<close>: the division raises ZeroDivisionError when the
  layer height is zero; nothing else is checked, so a negative layer height gives a
  count that is zero or negative.
\<close>

definition ceilLayers :: "real \<Rightarrow> real \<Rightarrow> py_error + int" where
  "ceilLayers nominal layerHeight =
     (if layerHeight = 0 then Inl ZeroDivisionError
      else Inr \<lceil>nominal / layerHeight\<rceil>)"

subsection \<open>Loading a preset\<close>

text \<open>The four messages \<^verbatim>\<open>_loadPreset\<close> logs, as the f-strings build them.\<close>

definition undefinedPresetMessage :: "string \<Rightarrow> string" where
  "undefinedPresetMessage presetName =
     ''A TempTower preset named '' @ [CHR 0x22] @ presetName @ [CHR 0x22] @
     '' was requested, but has not been correctly defined''"

definition missingFilenameMessage :: "string \<Rightarrow> string" where
  "missingFilenameMessage presetName =
     ''The '' @ [CHR 0x22] @ ''filename'' @ [CHR 0x22] @
     '' entry for TempTower preset table '' @ [CHR 0x22] @ presetName @ [CHR 0x22] @
     '' has not been defined''"

definition missingStartValueMessage :: "string \<Rightarrow> string" where
  "missingStartValueMessage presetName =
     ''The '' @ [CHR 0x22] @ ''start value'' @ [CHR 0x22] @
     '' for TempTower preset table '' @ [CHR 0x22] @ presetName @ [CHR 0x22] @
     '' has not been defined''"

definition missingChangeValueMessage :: "string \<Rightarrow> string" where
  "missingChangeValueMessage presetName =
     ''The '' @ [CHR 0x22] @ ''change value'' @ [CHR 0x22] @
     '' for TempTower preset table '' @ [CHR 0x22] @ presetName @ [CHR 0x22] @
     '' has not been defined''"

text \<open>
  \<^verbatim>\<open>_loadPreset\<close>. The file name is kept in a local variable, but the start value and
  the change value are assigned to the controller as soon as each is read.
\<close>

definition loadPreset ::
  "preset_tables \<Rightarrow> real \<Rightarrow> string \<Rightarrow> controller \<Rightarrow> controller \<times> outcome" where
  "loadPreset tables layerHeight presetName c =
     (case tables presetName of
        None \<Rightarrow> (c, Logged ''e'' (undefinedPresetMessage presetName))
      | Some presetTable \<Rightarrow>
     (case filename presetTable of
        None \<Rightarrow> (c, Logged ''e'' (missingFilenameMessage presetName))
      | Some stlFileName \<Rightarrow>
     (case start_value presetTable of
        None \<Rightarrow> (c, Logged ''e'' (missingStartValueMessage presetName))
      | Some startValue \<Rightarrow>
     let c1 = c\<lparr>self_startTemperature := startValue\<rparr> in
     (case change_value presetTable of
        None \<Rightarrow> (c1, Logged ''e'' (missingChangeValueMessage presetName))
      | Some changeValue \<Rightarrow>
     let c2 = c1\<lparr>self_temperatureChange := changeValue\<rparr> in
     (case ceilLayers nominalBaseHeight layerHeight of
        Inl e \<Rightarrow> (c2, Raised e)
      | Inr b \<Rightarrow>
     let c3 = c2\<lparr>self_baseLayers := b\<rparr> in
     (case ceilLayers nominalSectionHeight layerHeight of
        Inl e \<Rightarrow> (c3, Raised e)
      | Inr s \<Rightarrow>
     (c3\<lparr>self_sectionLayers := Some s\<rparr>, LoadStl (self_stlPath c) stlFileName)))))))"

subsection \<open>The custom tower\<close>

text \<open>
  \<^verbatim>\<open>dialogAccepted\<close>. The three numeric strings are parsed first; the layer counts are
  stored as they are computed; the change gets the sign of the direction from the start to
  the end temperature, and is positive when the two are equal.
\<close>

definition correctSign :: "real \<Rightarrow> real \<Rightarrow> real \<Rightarrow> real" where
  "correctSign startTemperature endTemperature temperatureChange =
     (if endTemperature \<ge> startTemperature then \<bar>temperatureChange\<bar>
      else - \<bar>temperatureChange\<bar>)"

definition openScadParameters ::
  "real \<Rightarrow> real \<Rightarrow> real \<Rightarrow> real \<Rightarrow> real \<Rightarrow> string \<Rightarrow> string \<Rightarrow> (string \<rightharpoonup> pyval)" where
  "openScadParameters startTemperature endTemperature temperatureChange baseHeight
       sectionHeight materialLabel towerDescription =
     (((((((Map.empty
       (''Starting_Value'' \<mapsto> PyNum startTemperature))
       (''Ending_Value'' \<mapsto> PyNum endTemperature))
       (''Value_Change'' \<mapsto> PyNum temperatureChange))
       (''Base_Height'' \<mapsto> PyNum baseHeight))
       (''Section_Height'' \<mapsto> PyNum sectionHeight))
       (''Column_Label'' \<mapsto> PyStr materialLabel))
       (''Tower_Label'' \<mapsto> PyStr towerDescription))"

definition dialogAccepted ::
  "(string \<Rightarrow> real option) \<Rightarrow> real \<Rightarrow> controller \<Rightarrow> controller \<times> outcome" where
  "dialogAccepted pyfloat layerHeight c =
     (case pyfloat (self_startTemperatureStr c) of
        None \<Rightarrow> (c, Raised ValueError)
      | Some startTemperature \<Rightarrow>
     (case pyfloat (self_endTemperatureStr c) of
        None \<Rightarrow> (c, Raised ValueError)
      | Some endTemperature \<Rightarrow>
     (case pyfloat (self_temperatureChangeStr c) of
        None \<Rightarrow> (c, Raised ValueError)
      | Some requestedChange \<Rightarrow>
     let materialLabel = self_materialLabelStr c;
         towerDescription = self_towerDescriptionStr c
     in
     (case ceilLayers nominalBaseHeight layerHeight of
        Inl e \<Rightarrow> (c, Raised e)
      | Inr b \<Rightarrow>
     let c1 = c\<lparr>self_baseLayers := b\<rparr>;
         baseHeight = of_int b * layerHeight
     in
     (case ceilLayers nominalSectionHeight layerHeight of
        Inl e \<Rightarrow> (c1, Raised e)
      | Inr s \<Rightarrow>
     let c2 = c1\<lparr>self_sectionLayers := Some s\<rparr>;
         sectionHeight = of_int s * layerHeight;
         temperatureChange = correctSign startTemperature endTemperature requestedChange;
         c3 = c2\<lparr>self_startTemperature := startTemperature,
                 self_temperatureChange := temperatureChange\<rparr>
     in
     (c3, GenerateAndLoadStl openScadFilename
            (openScadParameters startTemperature endTemperature temperatureChange
               baseHeight sectionHeight materialLabel towerDescription)))))))"

text \<open>\<^verbatim>\<open>generate\<close>: a preset when a name is given, the settings dialog otherwise.\<close>

definition generate ::
  "preset_tables \<Rightarrow> real \<Rightarrow> string \<Rightarrow> controller \<Rightarrow> controller \<times> outcome" where
  "generate tables layerHeight presetName c =
     (if \<not> presetName = [] then loadPreset tables layerHeight presetName c
      else (c, ShowSettingsDialog))"

subsection \<open>Post-processing\<close>

text \<open>
  \<^verbatim>\<open>postProcess\<close>. Both dialog strings are parsed, the results are not used; then the
  arguments of \<^verbatim>\<open>TempTower_PostProcessing.execute\<close> are read from the controller, which
  raises AttributeError when \<^verbatim>\<open>_sectionLayers\<close> does not exist. The script is the
  parameter \<open>execute\<close>, and its result is returned as it is.
\<close>

definition postProcess ::
  "(string \<Rightarrow> real option) \<Rightarrow> ('g \<Rightarrow> real \<Rightarrow> real \<Rightarrow> int \<Rightarrow> int \<Rightarrow> 'r) \<Rightarrow>
   controller \<Rightarrow> 'g \<Rightarrow> py_error + 'r" where
  "postProcess pyfloat execute c gcode =
     (case pyfloat (self_startTemperatureStr c) of
        None \<Rightarrow> Inl ValueError
      | Some startTemperature \<Rightarrow>
     (case pyfloat (self_temperatureChangeStr c) of
        None \<Rightarrow> Inl ValueError
      | Some temperatureChange \<Rightarrow>
     (case self_sectionLayers c of
        None \<Rightarrow> Inl AttributeError
      | Some sectionLayers \<Rightarrow>
          Inr (execute gcode (self_startTemperature c) (self_temperatureChange c)
                 sectionLayers (self_baseLayers c)))))"

subsection \<open>The instruction rewriter\<close>

text \<open>
  Modelled from the spec: the instruction rewriter, \<^verbatim>\<open>TempTower_PostProcessing.execute\<close>
  (\<^verbatim>\<open>scripts/TempTower_PostProcessing.py\<close> is imported by the controller and is not among
  the sources). The model follows section 4.3 of the specification: a single forward pass
  that counts layer-boundary markers from 0 and, at a marker whose layer is the first of
  a section, emits one temperature instruction right after the marker. The layers of a
  stream with \<open>L\<close> markers are \<open>0, \<dots>, L - 1\<close>, as the specification's scenario has
  it (a stream of 84 layers ends at 84 exclusive). The specification leaves the text of a
  marker and of a temperature instruction open: they are the parameters
  \<open>isLayerMarker\<close> and \<open>temperatureInstruction\<close>.
\<close>

text \<open>Modelled from the spec: the rewriter's failure (section 7).\<close>

datatype rewrite_error = MalformedInstructionStream

text \<open>Modelled from the spec: the schedule handed to the rewriter (section 3).\<close>

record TowerSchedule =
  baseLayers :: int
  sectionLayers :: int
  startTemperature :: real
  temperatureChange :: real

text \<open>
  Modelled from the spec: the derived state
  \<open>max(0, floor((currentLayerIndex - baseLayers) / sectionLayers))\<close>.
\<close>

definition currentSectionIndex :: "TowerSchedule \<Rightarrow> int \<Rightarrow> int" where
  "currentSectionIndex sch currentLayerIndex =
     max 0 ((currentLayerIndex - baseLayers sch) div sectionLayers sch)"

text \<open>
  Modelled from the spec: the derived state
  \<open>startTemperature + currentSectionIndex * temperatureChange\<close>.
\<close>

definition currentTemperature :: "TowerSchedule \<Rightarrow> int \<Rightarrow> real" where
  "currentTemperature sch currentLayerIndex =
     startTemperature sch +
     of_int (currentSectionIndex sch currentLayerIndex) * temperatureChange sch"

text \<open>
  Modelled from the spec: the layer is the first of a section, that is,
  \<open>baseLayers + sectionIndex * sectionLayers\<close> for some \<open>sectionIndex \<ge> 0\<close>
  (lemma \<open>firstLayerOfSection_iff\<close> below).
\<close>

definition firstLayerOfSection :: "TowerSchedule \<Rightarrow> int \<Rightarrow> bool" where
  "firstLayerOfSection sch currentLayerIndex \<longleftrightarrow>
     baseLayers sch \<le> currentLayerIndex \<and>
     sectionLayers sch dvd (currentLayerIndex - baseLayers sch)"

text \<open>
  Modelled from the spec: what the pass emits, a line of the input or the temperature
  instruction injected at a layer with its temperature.
\<close>

datatype emitted = Passed string | Injected int real

text \<open>
  Modelled from the spec: the forward pass. \<open>currentLayerIndex\<close> is the number of
  markers passed so far, so it is the layer of the marker being read.
\<close>

fun scan :: "(string \<Rightarrow> bool) \<Rightarrow> TowerSchedule \<Rightarrow> int \<Rightarrow> string list \<Rightarrow> emitted list" where
  "scan isLayerMarker sch currentLayerIndex [] = []"
| "scan isLayerMarker sch currentLayerIndex (line # rest) =
     (if isLayerMarker line then
        (if firstLayerOfSection sch currentLayerIndex
         then [Passed line,
               Injected currentLayerIndex (currentTemperature sch currentLayerIndex)]
         else [Passed line]) @
        scan isLayerMarker sch (currentLayerIndex + 1) rest
      else Passed line # scan isLayerMarker sch currentLayerIndex rest)"

text \<open>Modelled from the spec: the text of an emitted line.\<close>

fun render :: "(real \<Rightarrow> string) \<Rightarrow> emitted \<Rightarrow> string" where
  "render temperatureInstruction (Passed line) = line"
| "render temperatureInstruction (Injected layer temperature) =
     temperatureInstruction temperature"

text \<open>
  Modelled from the spec: \<open>rewrite(instructionStream, schedule)\<close>, which fails when the
  stream has no layer-boundary marker at all.
\<close>

definition rewrite ::
  "(string \<Rightarrow> bool) \<Rightarrow> (real \<Rightarrow> string) \<Rightarrow> TowerSchedule \<Rightarrow> string list \<Rightarrow>
   rewrite_error + string list" where
  "rewrite isLayerMarker temperatureInstruction sch stream =
     (if \<not> list_ex isLayerMarker stream then Inl MalformedInstructionStream
      else Inr (map (render temperatureInstruction) (scan isLayerMarker sch 0 stream)))"

text \<open>The injected instructions of a pass, in order: layer and temperature.\<close>

fun injections :: "emitted list \<Rightarrow> (int \<times> real) list" where
  "injections [] = []"
| "injections (Passed line # es) = injections es"
| "injections (Injected layer temperature # es) = (layer, temperature) # injections es"

definition totalLayers :: "(string \<Rightarrow> bool) \<Rightarrow> string list \<Rightarrow> int" where
  "totalLayers isLayerMarker stream = int (length (filter isLayerMarker stream))"

text \<open>
  The number of injections as the specification's formula gives it, and the number of
  section starts among the layers \<open>0, \<dots>, L - 1\<close>.
\<close>

definition specInjectionCount :: "int \<Rightarrow> int \<Rightarrow> int \<Rightarrow> int" where
  "specInjectionCount L base section =
     (if L > base then max 0 ((L - base) div section + 1) else 0)"

definition injectionCount :: "int \<Rightarrow> int \<Rightarrow> int \<Rightarrow> int" where
  "injectionCount L base section =
     (if L > base then (L - 1 - base) div section + 1 else 0)"

subsection \<open>Concrete inputs for the examples\<close>

text \<open>
  The values of \<^verbatim>\<open>float\<close> on the dialog strings of the examples; on every other string
  this parser fails, as \<^verbatim>\<open>float\<close> does on \<^verbatim>\<open>'abc'\<close>.
\<close>

definition sampleFloat :: "string \<Rightarrow> real option" where
  "sampleFloat = map_of
     [(''220'', 220), (''180'', 180), (''-5'', - 5), (''5'', 5),
      (''230'', 230), (''190'', 190), (''200'', 200)]"

text \<open>A preset table whose only entry has no \<^verbatim>\<open>'change value'\<close>.\<close>

definition tablesWithoutChange :: preset_tables where
  "tablesWithoutChange = map_of
     [(''pla'', \<lparr>filename = Some ''temptower-pla.stl'', start_value = Some 230,
                 change_value = None\<rparr>)]"

text \<open>A stream of \<open>n\<close> layers, each a marker line and one move.\<close>

definition sampleMarker :: "string \<Rightarrow> bool" where
  "sampleMarker line \<longleftrightarrow> take 7 line = '';LAYER:''"

definition sampleInstruction :: "real \<Rightarrow> string" where
  "sampleInstruction temperature = ''M104''"

definition sampleStream :: "nat \<Rightarrow> string list" where
  "sampleStream n = concat (replicate n ['';LAYER:'', ''G1 X0 Y0''])"

definition sampleSchedule :: TowerSchedule where
  "sampleSchedule =
     \<lparr>baseLayers = 4, sectionLayers = 40, startTemperature = 230, temperatureChange = - 5\<rparr>"

section \<open>Properties\<close>

subsection \<open>Completed runs\<close>

lemma ceilLayers_nonzero:
  "layerHeight \<noteq> 0 \<Longrightarrow> ceilLayers nominal layerHeight = Inr \<lceil>nominal / layerHeight\<rceil>"
  by (simp add: ceilLayers_def)


lemma dialogAccepted_completes:
  assumes "pyfloat (self_startTemperatureStr c) = Some st"
    and "pyfloat (self_endTemperatureStr c) = Some en"
    and "pyfloat (self_temperatureChangeStr c) = Some ch"
    and "layerHeight \<noteq> 0"
  shows "dialogAccepted pyfloat layerHeight c =
    (c\<lparr>self_baseLayers := \<lceil>nominalBaseHeight / layerHeight\<rceil>,
       self_sectionLayers := Some \<lceil>nominalSectionHeight / layerHeight\<rceil>,
       self_startTemperature := st,
       self_temperatureChange := correctSign st en ch\<rparr>,
     GenerateAndLoadStl openScadFilename
       (openScadParameters st en (correctSign st en ch)
          (of_int \<lceil>nominalBaseHeight / layerHeight\<rceil> * layerHeight)
          (of_int \<lceil>nominalSectionHeight / layerHeight\<rceil> * layerHeight)
          (self_materialLabelStr c) (self_towerDescriptionStr c)))"
  using assms by (simp add: dialogAccepted_def ceilLayers_nonzero Let_def)

lemma loadPreset_completes:
  assumes "tables presetName = Some entry"
    and "filename entry = Some f"
    and "start_value entry = Some sv"
    and "change_value entry = Some cv"
    and "layerHeight \<noteq> 0"
  shows "loadPreset tables layerHeight presetName c =
    (c\<lparr>self_startTemperature := sv,
       self_temperatureChange := cv,
       self_baseLayers := \<lceil>nominalBaseHeight / layerHeight\<rceil>,
       self_sectionLayers := Some \<lceil>nominalSectionHeight / layerHeight\<rceil>\<rparr>,
     LoadStl (self_stlPath c) f)"
  using assms by (simp add: loadPreset_def ceilLayers_nonzero Let_def)

lemma sampleFloat_simps:
  "sampleFloat ''220'' = Some 220" "sampleFloat ''180'' = Some 180"
  "sampleFloat ''-5'' = Some (- 5)" "sampleFloat ''5'' = Some 5"
  "sampleFloat ''230'' = Some 230" "sampleFloat ''190'' = Some 190"
  "sampleFloat ''200'' = Some 200" "sampleFloat ''abc'' = None"
  by (simp_all add: sampleFloat_def)

lemma presetTables_pla: "presetTables ''pla'' = Some (preset ''temptower-pla.stl'' 230 5)"
  by (simp add: presetTables_def)

lemma preset_fields:
  "filename (preset f s c) = Some f" "start_value (preset f s c) = Some s"
  "change_value (preset f s c) = Some c"
  by (simp_all add: preset_def)

lemma init_strings:
  "self_startTemperatureStr (init g s) = ''220''"
  "self_endTemperatureStr (init g s) = ''180''"
  "self_temperatureChangeStr (init g s) = ''-5''"
  by (simp_all add: init_def)

subsection \<open>Layer counts are rounded up\<close>




subsection \<open>A layer height that is not positive\<close>







subsection \<open>The sign of the change\<close>

lemma correctSign_abs: "\<bar>correctSign st en ch\<bar> = \<bar>ch\<bar>"
  by (simp add: correctSign_def)

lemma correctSign_sgn:
  assumes "en \<noteq> st" and "ch \<noteq> 0"
  shows "sgn (correctSign st en ch) = sgn (en - st)"
  using assms by (simp add: correctSign_def sgn_if)

text \<open>
  With the start and the end temperature both 220 and a requested change of -5, the stored
  change is 5: it is not 0, and its sign is not the sign of \<open>end - start\<close>.
\<close>

theorem sign_correction_counterexample:
  "self_temperatureChange
     (fst (dialogAccepted sampleFloat 0.2 (setEndTemperatureStr ''220'' (init ''gui'' ''stl'')))) = 5 \<and>
   sampleFloat (self_startTemperatureStr (setEndTemperatureStr ''220'' (init ''gui'' ''stl''))) =
     Some 220 \<and>
   sampleFloat (self_endTemperatureStr (setEndTemperatureStr ''220'' (init ''gui'' ''stl''))) =
     Some 220 \<and>
   sgn (5 :: real) \<noteq> sgn (220 - 220)"
  using dialogAccepted_completes [of sampleFloat
      "setEndTemperatureStr ''220'' (init ''gui'' ''stl'')" 220 220 "- 5" "0.2"]
  by (simp add: sampleFloat_simps setEndTemperatureStr_def init_def correctSign_def)

text \<open>
  C3 (amended). On the custom path the stored change is \<open>|requested|\<close> when
  \<open>end \<ge> start\<close> and \<open>-|requested|\<close> otherwise. Its absolute value is that of the
  requested change; its sign is the sign of \<open>end - start\<close> whenever the two temperatures
  differ and the requested change is not 0; when the two temperatures are equal it is
  \<open>|requested|\<close>, which is 0 only for a requested change of 0.
\<close>

theorem sign_correction:
  assumes "pyfloat (self_startTemperatureStr c) = Some st"
    and "pyfloat (self_endTemperatureStr c) = Some en"
    and "pyfloat (self_temperatureChangeStr c) = Some ch"
    and "layerHeight \<noteq> 0"
    and "tc = self_temperatureChange (fst (dialogAccepted pyfloat layerHeight c))"
  shows "tc = (if en \<ge> st then \<bar>ch\<bar> else - \<bar>ch\<bar>) \<and>
         \<bar>tc\<bar> = \<bar>ch\<bar> \<and>
         (en \<noteq> st \<and> ch \<noteq> 0 \<longrightarrow> sgn tc = sgn (en - st)) \<and>
         (en = st \<longrightarrow> tc = \<bar>ch\<bar>)"
proof -
  have tc: "tc = correctSign st en ch"
    using dialogAccepted_completes [of pyfloat c st en ch layerHeight] assms by simp
  then have "tc = (if en \<ge> st then \<bar>ch\<bar> else - \<bar>ch\<bar>)"
    by (simp add: correctSign_def)
  moreover have "\<bar>tc\<bar> = \<bar>ch\<bar>"
    using tc by (simp add: correctSign_abs)
  moreover have "en \<noteq> st \<and> ch \<noteq> 0 \<longrightarrow> sgn tc = sgn (en - st)"
    using tc by (simp add: correctSign_sgn)
  moreover have "en = st \<longrightarrow> tc = \<bar>ch\<bar>"
    using tc by (simp add: correctSign_def)
  ultimately show ?thesis by blast
qed

theorem sign_correction_witness:
  "self_temperatureChange
     (fst (dialogAccepted sampleFloat 0.2
        (setTemperatureChangeStr ''5'' (init ''gui'' ''stl'')))) = - 5 \<and>
   sgn (self_temperatureChange
     (fst (dialogAccepted sampleFloat 0.2
        (setTemperatureChangeStr ''5'' (init ''gui'' ''stl''))))) = sgn (180 - 220 :: real)"
  using sign_correction [of sampleFloat "setTemperatureChangeStr ''5'' (init ''gui'' ''stl'')"
      220 180 5 "0.2"
      "self_temperatureChange (fst (dialogAccepted sampleFloat 0.2
        (setTemperatureChangeStr ''5'' (init ''gui'' ''stl''))))"]
  by (simp add: sampleFloat_simps setTemperatureChangeStr_def init_def)

subsection \<open>The parameters sent to OpenSCAD\<close>





subsection \<open>Post-processing\<close>

lemma loadPreset_strings:
  "self_startTemperatureStr (fst (loadPreset tables layerHeight presetName c)) =
     self_startTemperatureStr c"
  "self_temperatureChangeStr (fst (loadPreset tables layerHeight presetName c)) =
     self_temperatureChangeStr c"
  by (simp_all add: loadPreset_def Let_def split: option.split sum.split)

lemma postProcess_delegates:
  assumes "pyfloat (self_startTemperatureStr c) = Some a"
    and "pyfloat (self_temperatureChangeStr c) = Some b"
    and "self_sectionLayers c = Some sl"
  shows "postProcess pyfloat execute c gcode =
    Inr (execute gcode (self_startTemperature c) (self_temperatureChange c) sl
           (self_baseLayers c))"
  using assms by (simp add: postProcess_def)

lemma postProcess_no_sectionLayers:
  assumes "self_sectionLayers c = None"
  shows "postProcess pyfloat execute c gcode =
    (if pyfloat (self_startTemperatureStr c) = None \<or>
        pyfloat (self_temperatureChangeStr c) = None
     then Inl ValueError else Inl AttributeError)"
  using assms by (simp add: postProcess_def split: option.split)

text \<open>
  C7. When the two dialog strings parse, \<^verbatim>\<open>postProcess\<close> returns what the script
  returns on the g-code and the stored \<^verbatim>\<open>_startTemperature\<close>,
  \<^verbatim>\<open>_temperatureChange\<close>, \<^verbatim>\<open>_sectionLayers\<close> and \<^verbatim>\<open>_baseLayers\<close>. After a
  completed custom run these are the parsed start temperature, the sign-corrected change
  and the two rounded-up counts; after a completed preset run they are the preset's start
  and change values and the counts, whatever the dialog strings parse to.
\<close>

theorem postProcess_uses_stored_schedule:
  assumes "pyfloat (self_startTemperatureStr c) = Some a"
    and "pyfloat (self_temperatureChangeStr c) = Some b"
  shows "(self_sectionLayers c = Some sl \<longrightarrow>
            postProcess pyfloat execute c gcode =
              Inr (execute gcode (self_startTemperature c) (self_temperatureChange c) sl
                     (self_baseLayers c))) \<and>
         (pyfloat (self_endTemperatureStr c) = Some en \<and> layerHeight \<noteq> 0 \<longrightarrow>
            postProcess pyfloat execute (fst (dialogAccepted pyfloat layerHeight c)) gcode =
              Inr (execute gcode a (correctSign a en b)
                     \<lceil>8.0 / layerHeight\<rceil> \<lceil>0.8 / layerHeight\<rceil>)) \<and>
         (tables presetName = Some entry \<and> filename entry = Some f \<and>
          start_value entry = Some sv \<and> change_value entry = Some cv \<and> layerHeight \<noteq> 0 \<longrightarrow>
            postProcess pyfloat execute (fst (loadPreset tables layerHeight presetName c)) gcode =
              Inr (execute gcode sv cv \<lceil>8.0 / layerHeight\<rceil> \<lceil>0.8 / layerHeight\<rceil>))"
proof (intro conjI impI)
  assume "self_sectionLayers c = Some sl"
  with assms show "postProcess pyfloat execute c gcode =
      Inr (execute gcode (self_startTemperature c) (self_temperatureChange c) sl
             (self_baseLayers c))"
    by (rule postProcess_delegates)
next
  assume h: "pyfloat (self_endTemperatureStr c) = Some en \<and> layerHeight \<noteq> 0"
  let ?c' = "fst (dialogAccepted pyfloat layerHeight c)"
  have c': "?c' = c\<lparr>self_baseLayers := \<lceil>nominalBaseHeight / layerHeight\<rceil>,
       self_sectionLayers := Some \<lceil>nominalSectionHeight / layerHeight\<rceil>,
       self_startTemperature := a,
       self_temperatureChange := correctSign a en b\<rparr>"
    using dialogAccepted_completes [of pyfloat c a en b layerHeight] assms h by simp
  have "postProcess pyfloat execute ?c' gcode =
      Inr (execute gcode (self_startTemperature ?c') (self_temperatureChange ?c')
             \<lceil>nominalSectionHeight / layerHeight\<rceil> (self_baseLayers ?c'))"
    by (rule postProcess_delegates [of pyfloat _ a b]) (simp_all add: c' assms)
  then show "postProcess pyfloat execute ?c' gcode =
      Inr (execute gcode a (correctSign a en b) \<lceil>8.0 / layerHeight\<rceil> \<lceil>0.8 / layerHeight\<rceil>)"
    by (simp add: c' nominalBaseHeight_def nominalSectionHeight_def)
next
  assume h: "tables presetName = Some entry \<and> filename entry = Some f \<and>
          start_value entry = Some sv \<and> change_value entry = Some cv \<and> layerHeight \<noteq> 0"
  let ?c' = "fst (loadPreset tables layerHeight presetName c)"
  have c': "?c' = c\<lparr>self_startTemperature := sv,
       self_temperatureChange := cv,
       self_baseLayers := \<lceil>nominalBaseHeight / layerHeight\<rceil>,
       self_sectionLayers := Some \<lceil>nominalSectionHeight / layerHeight\<rceil>\<rparr>"
    using loadPreset_completes [of tables presetName entry f sv cv layerHeight c] h by simp
  have "postProcess pyfloat execute ?c' gcode =
      Inr (execute gcode (self_startTemperature ?c') (self_temperatureChange ?c')
             \<lceil>nominalSectionHeight / layerHeight\<rceil> (self_baseLayers ?c'))"
    by (rule postProcess_delegates [of pyfloat _ a b]) (simp_all add: c' assms)
  then show "postProcess pyfloat execute ?c' gcode =
      Inr (execute gcode sv cv \<lceil>8.0 / layerHeight\<rceil> \<lceil>0.8 / layerHeight\<rceil>)"
    by (simp add: c' nominalBaseHeight_def nominalSectionHeight_def)
qed

text \<open>
  The script of the example records its arguments: post-processing after the preset
  \<open>pla\<close> passes the preset's values 230 and 5, not the dialog's 220 and -5.
\<close>

theorem postProcess_uses_stored_schedule_witness:
  "postProcess sampleFloat (\<lambda>g st ch sl bl. (g, st, ch, sl, bl))
     (fst (loadPreset presetTables 0.2 ''pla'' (init ''gui'' ''stl''))) [''G28''] =
   Inr ([''G28''], 230, 5, 40, 4) \<and>
   postProcess sampleFloat (\<lambda>g st ch sl bl. (g, st, ch, sl, bl))
     (fst (dialogAccepted sampleFloat 0.2
        (setTemperatureChangeStr ''5'' (init ''gui'' ''stl'')))) [''G28''] =
   Inr ([''G28''], 220, - 5, 40, 4)"
proof -
  let ?c = "init ''gui'' ''stl''"
  let ?d = "setTemperatureChangeStr ''5'' ?c"
  let ?x = "\<lambda>g st ch sl bl. (g :: string list, st :: real, ch :: real, sl :: int, bl :: int)"
  have c: "sampleFloat (self_startTemperatureStr ?c) = Some 220"
    "sampleFloat (self_temperatureChangeStr ?c) = Some (- 5)"
    by (simp_all add: sampleFloat_simps init_strings)
  have d: "sampleFloat (self_startTemperatureStr ?d) = Some 220"
    "sampleFloat (self_temperatureChangeStr ?d) = Some 5"
    "sampleFloat (self_endTemperatureStr ?d) = Some 180"
    by (simp_all add: sampleFloat_simps init_def setTemperatureChangeStr_def)
  have "postProcess sampleFloat ?x
     (fst (loadPreset presetTables 0.2 ''pla'' ?c)) [''G28''] =
     Inr ([''G28''], 230, 5, 40, 4)"
    using postProcess_uses_stored_schedule [OF c, of _ ?x "[''G28'']" _ "0.2"
        presetTables "''pla''" "preset ''temptower-pla.stl'' 230 5" "''temptower-pla.stl''" 230 5]
    by (simp add: presetTables_pla preset_fields)
  moreover have "postProcess sampleFloat ?x
     (fst (dialogAccepted sampleFloat 0.2 ?d)) [''G28''] =
     Inr ([''G28''], 220, - 5, 40, 4)"
    using postProcess_uses_stored_schedule [OF d(1,2), of _ ?x "[''G28'']" 180 "0.2"] d(3)
    by (simp add: correctSign_def)
  ultimately show ?thesis by blast
qed

text \<open>
  C9. \<^verbatim>\<open>postProcess\<close> parses the start and the change string of the dialog before it
  calls the script: when either does not parse, it raises ValueError for every g-code,
  also after a preset has been loaded.
\<close>

theorem postProcess_parses_dialog_strings:
  assumes "pyfloat (self_startTemperatureStr c) = None \<or>
           pyfloat (self_temperatureChangeStr c) = None"
  shows "postProcess pyfloat execute c gcode = Inl ValueError \<and>
         postProcess pyfloat execute (fst (loadPreset tables layerHeight presetName c)) gcode =
           Inl ValueError"
  using assms by (auto simp add: postProcess_def loadPreset_strings split: option.split)

theorem postProcess_parses_dialog_strings_witness:
  "postProcess sampleFloat (\<lambda>g st ch sl bl. g)
     (fst (loadPreset presetTables 0.2 ''pla''
        (setStartTemperatureStr ''abc'' (init ''gui'' ''stl'')))) [''G28''] = Inl ValueError \<and>
   self_sectionLayers (fst (loadPreset presetTables 0.2 ''pla''
        (setStartTemperatureStr ''abc'' (init ''gui'' ''stl'')))) = Some 40"
proof -
  let ?c = "setStartTemperatureStr ''abc'' (init ''gui'' ''stl'')"
  have "sampleFloat (self_startTemperatureStr ?c) = None \<or>
        sampleFloat (self_temperatureChangeStr ?c) = None"
    by (simp add: setStartTemperatureStr_def init_def sampleFloat_simps)
  from postProcess_parses_dialog_strings [OF this, of "\<lambda>g st ch sl bl. g" "[''G28'']"
      presetTables "0.2" "''pla''"]
  have "postProcess sampleFloat (\<lambda>g st ch sl bl. g)
     (fst (loadPreset presetTables 0.2 ''pla'' ?c)) [''G28''] = Inl ValueError"
    by (rule conjunct2)
  moreover have "self_sectionLayers (fst (loadPreset presetTables 0.2 ''pla'' ?c)) = Some 40"
    using loadPreset_completes [of presetTables "''pla''" "preset ''temptower-pla.stl'' 230 5"
        "''temptower-pla.stl''" 230 5 "0.2" ?c]
    by (simp add: presetTables_pla preset_fields nominalSectionHeight_def)
  ultimately show ?thesis by blast
qed

lemma loadPreset_sectionLayers:
  assumes "self_sectionLayers c = None"
  shows "self_sectionLayers (fst (loadPreset tables layerHeight presetName c)) =
    (case snd (loadPreset tables layerHeight presetName c) of
       LoadStl d f \<Rightarrow> Some \<lceil>nominalSectionHeight / layerHeight\<rceil>
     | _ \<Rightarrow> None)"
  using assms
  by (simp add: loadPreset_def ceilLayers_def Let_def split: option.split)

lemma dialogAccepted_sectionLayers:
  assumes "self_sectionLayers c = None"
  shows "self_sectionLayers (fst (dialogAccepted pyfloat layerHeight c)) =
    (case snd (dialogAccepted pyfloat layerHeight c) of
       GenerateAndLoadStl f p \<Rightarrow> Some \<lceil>nominalSectionHeight / layerHeight\<rceil>
     | _ \<Rightarrow> None)"
  using assms
  by (simp add: dialogAccepted_def ceilLayers_def Let_def split: option.split)

text \<open>
  C10. The constructor sets \<^verbatim>\<open>_startTemperature\<close>, \<^verbatim>\<open>_temperatureChange\<close> and
  \<^verbatim>\<open>_baseLayers\<close> to 0 and does not create \<^verbatim>\<open>_sectionLayers\<close>; on the new
  controller \<^verbatim>\<open>postProcess\<close> raises AttributeError (the default dialog strings parse);
  on any controller without the attribute it returns no stream, raising AttributeError
  unless the parse of a dialog string has raised ValueError before; and the attribute
  exists after \<^verbatim>\<open>_loadPreset\<close> or \<^verbatim>\<open>dialogAccepted\<close> exactly when the run reached
  its callback, that is, completed the layer computation.
\<close>

theorem sectionLayers_missing_after_init:
  assumes "pyfloat ''220'' = Some a" and "pyfloat ''-5'' = Some b"
    and "c = init guiPath stlPath"
  shows "self_startTemperature c = 0 \<and> self_temperatureChange c = 0 \<and>
         self_baseLayers c = 0 \<and> self_sectionLayers c = None \<and>
         postProcess pyfloat execute c gcode = Inl AttributeError \<and>
         (self_sectionLayers d = None \<longrightarrow>
            postProcess pyfloat execute d gcode =
              (if pyfloat (self_startTemperatureStr d) = None \<or>
                  pyfloat (self_temperatureChangeStr d) = None
               then Inl ValueError else Inl AttributeError)) \<and>
         self_sectionLayers (fst (loadPreset tables layerHeight presetName c)) =
           (case snd (loadPreset tables layerHeight presetName c) of
              LoadStl d f \<Rightarrow> Some \<lceil>8.0 / layerHeight\<rceil>
            | _ \<Rightarrow> None) \<and>
         self_sectionLayers (fst (dialogAccepted pyfloat layerHeight c)) =
           (case snd (dialogAccepted pyfloat layerHeight c) of
              GenerateAndLoadStl f p \<Rightarrow> Some \<lceil>8.0 / layerHeight\<rceil>
            | _ \<Rightarrow> None)"
proof -
  have none: "self_sectionLayers c = None" unfolding assms(3) by (simp add: init_def)
  have "pyfloat (self_startTemperatureStr c) = Some a"
    "pyfloat (self_temperatureChangeStr c) = Some b"
    unfolding assms(3) using assms(1,2) by (simp_all add: init_strings)
  then have "postProcess pyfloat execute c gcode = Inl AttributeError"
    by (simp add: postProcess_no_sectionLayers [OF none])
  moreover have "self_startTemperature c = 0 \<and> self_temperatureChange c = 0 \<and>
         self_baseLayers c = 0"
    unfolding assms(3) by (simp add: init_def)
  moreover have "self_sectionLayers d = None \<longrightarrow>
      postProcess pyfloat execute d gcode =
        (if pyfloat (self_startTemperatureStr d) = None \<or>
            pyfloat (self_temperatureChangeStr d) = None
         then Inl ValueError else Inl AttributeError)"
    using postProcess_no_sectionLayers [of d pyfloat execute gcode] by blast
  ultimately show ?thesis
    using none
      loadPreset_sectionLayers [OF none, of tables layerHeight presetName,
        unfolded nominalSectionHeight_def]
      dialogAccepted_sectionLayers [OF none, of pyfloat layerHeight,
        unfolded nominalSectionHeight_def]
    by simp
qed

theorem sectionLayers_missing_after_init_witness:
  "postProcess sampleFloat (\<lambda>g st ch sl bl. g) (init ''gui'' ''stl'') [''G28''] =
     Inl AttributeError \<and>
   self_sectionLayers (init ''gui'' ''stl'') = None \<and>
   postProcess sampleFloat (\<lambda>g st ch sl bl. g)
     (fst (loadPreset presetTables 0.2 ''wood'' (init ''gui'' ''stl''))) [''G28''] =
     Inl AttributeError"
proof -
  have w: "presetTables ''wood'' = None" by (simp add: presetTables_def)
  have same: "fst (loadPreset presetTables 0.2 ''wood'' (init ''gui'' ''stl'')) =
      init ''gui'' ''stl''"
    by (simp add: loadPreset_def w)
  from sectionLayers_missing_after_init [of sampleFloat 220 "- 5" "init ''gui'' ''stl''"
      "''gui''" "''stl''" "\<lambda>g st ch sl bl. g" "[''G28'']" "init ''gui'' ''stl''"]
  show ?thesis unfolding same by (simp add: sampleFloat_simps)
qed

subsection \<open>Failures of the preset lookup\<close>

lemma messages_distinct:
  "undefinedPresetMessage n \<noteq> missingFilenameMessage m"
  "undefinedPresetMessage n \<noteq> missingStartValueMessage m"
  "undefinedPresetMessage n \<noteq> missingChangeValueMessage m"
  "missingFilenameMessage n \<noteq> missingStartValueMessage m"
  "missingFilenameMessage n \<noteq> missingChangeValueMessage m"
  "missingStartValueMessage n \<noteq> missingChangeValueMessage m"
  by (simp_all add: undefinedPresetMessage_def missingFilenameMessage_def
      missingStartValueMessage_def missingChangeValueMessage_def)





lemma loadPreset_complete_entry:
  assumes "tables presetName = Some entry" and "filename entry = Some f"
    and "start_value entry = Some sv" and "change_value entry = Some cv"
  shows "snd (loadPreset tables layerHeight presetName c) =
      (if layerHeight = 0 then Raised ZeroDivisionError else LoadStl (self_stlPath c) f)"
    and "self_startTemperature (fst (loadPreset tables layerHeight presetName c)) = sv"
    and "self_temperatureChange (fst (loadPreset tables layerHeight presetName c)) = cv"
  using assms by (simp_all add: loadPreset_def ceilLayers_def Let_def)


text \<open>The outcome of \<^verbatim>\<open>_loadPreset\<close> in each of its five cases.\<close>

lemma loadPreset_outcome:
  "snd (loadPreset tables layerHeight presetName c) =
     (case tables presetName of
        None \<Rightarrow> Logged ''e'' (undefinedPresetMessage presetName)
      | Some entry \<Rightarrow>
     (case filename entry of
        None \<Rightarrow> Logged ''e'' (missingFilenameMessage presetName)
      | Some f \<Rightarrow>
     (case start_value entry of
        None \<Rightarrow> Logged ''e'' (missingStartValueMessage presetName)
      | Some sv \<Rightarrow>
     (case change_value entry of
        None \<Rightarrow> Logged ''e'' (missingChangeValueMessage presetName)
      | Some cv \<Rightarrow>
          (if layerHeight = 0 then Raised ZeroDivisionError
           else LoadStl (self_stlPath c) f)))))"
  by (simp add: loadPreset_def ceilLayers_def Let_def split: option.split)

text \<open>
  C6. \<^verbatim>\<open>_loadPreset\<close> reports an unknown preset exactly when the name is not a key of
  the table (the keys are compared as they are, so \<^verbatim>\<open>'PLA'\<close> is not \<^verbatim>\<open>'pla'\<close>); it
  reports a missing field, naming it, exactly when the name is a key and the entry lacks
  the file name, or else the start value, or else the change value; and for an entry with
  all three it stores the start and the change value and passes the file name to the load
  callback.
\<close>

theorem preset_lookup:
  "(snd (loadPreset tables layerHeight presetName c) =
      Logged ''e'' (undefinedPresetMessage presetName) \<longleftrightarrow>
    tables presetName = None) \<and>
   (snd (loadPreset tables layerHeight presetName c) =
      Logged ''e'' (missingFilenameMessage presetName) \<longleftrightarrow>
    (\<exists>e. tables presetName = Some e \<and> filename e = None)) \<and>
   (snd (loadPreset tables layerHeight presetName c) =
      Logged ''e'' (missingStartValueMessage presetName) \<longleftrightarrow>
    (\<exists>e. tables presetName = Some e \<and> filename e \<noteq> None \<and> start_value e = None)) \<and>
   (snd (loadPreset tables layerHeight presetName c) =
      Logged ''e'' (missingChangeValueMessage presetName) \<longleftrightarrow>
    (\<exists>e. tables presetName = Some e \<and> filename e \<noteq> None \<and> start_value e \<noteq> None \<and>
         change_value e = None)) \<and>
   ((\<exists>level msg. snd (loadPreset tables layerHeight presetName c) = Logged level msg) \<longleftrightarrow>
    (case tables presetName of
       None \<Rightarrow> True
     | Some e \<Rightarrow> filename e = None \<or> start_value e = None \<or> change_value e = None)) \<and>
   (\<forall>e f sv cv.
      tables presetName = Some e \<and> filename e = Some f \<and> start_value e = Some sv \<and>
      change_value e = Some cv \<longrightarrow>
      self_startTemperature (fst (loadPreset tables layerHeight presetName c)) = sv \<and>
      self_temperatureChange (fst (loadPreset tables layerHeight presetName c)) = cv \<and>
      (layerHeight \<noteq> 0 \<longrightarrow>
         snd (loadPreset tables layerHeight presetName c) = LoadStl (self_stlPath c) f))"
proof (intro conjI)
  show "(snd (loadPreset tables layerHeight presetName c) =
      Logged ''e'' (undefinedPresetMessage presetName)) = (tables presetName = None)"
    unfolding loadPreset_outcome
    by (auto simp add: messages_distinct messages_distinct [symmetric] split: option.split)
  show "(snd (loadPreset tables layerHeight presetName c) =
      Logged ''e'' (missingFilenameMessage presetName)) =
    (\<exists>e. tables presetName = Some e \<and> filename e = None)"
    unfolding loadPreset_outcome
    by (auto simp add: messages_distinct messages_distinct [symmetric] split: option.split)
  show "(snd (loadPreset tables layerHeight presetName c) =
      Logged ''e'' (missingStartValueMessage presetName)) =
    (\<exists>e. tables presetName = Some e \<and> filename e \<noteq> None \<and> start_value e = None)"
    unfolding loadPreset_outcome
    by (auto simp add: messages_distinct messages_distinct [symmetric] split: option.split)
  show "(snd (loadPreset tables layerHeight presetName c) =
      Logged ''e'' (missingChangeValueMessage presetName)) =
    (\<exists>e. tables presetName = Some e \<and> filename e \<noteq> None \<and> start_value e \<noteq> None \<and>
         change_value e = None)"
    unfolding loadPreset_outcome
    by (auto simp add: messages_distinct messages_distinct [symmetric] split: option.split)
  show "(\<exists>level msg. snd (loadPreset tables layerHeight presetName c) = Logged level msg) =
    (case tables presetName of
       None \<Rightarrow> True
     | Some e \<Rightarrow> filename e = None \<or> start_value e = None \<or> change_value e = None)"
    unfolding loadPreset_outcome
    by (auto split: option.split)
  show "\<forall>e f sv cv.
      tables presetName = Some e \<and> filename e = Some f \<and> start_value e = Some sv \<and>
      change_value e = Some cv \<longrightarrow>
      self_startTemperature (fst (loadPreset tables layerHeight presetName c)) = sv \<and>
      self_temperatureChange (fst (loadPreset tables layerHeight presetName c)) = cv \<and>
      (layerHeight \<noteq> 0 \<longrightarrow>
         snd (loadPreset tables layerHeight presetName c) = LoadStl (self_stlPath c) f)"
    using loadPreset_complete_entry [of tables presetName _ _ _ _ layerHeight c]
    by auto
qed

theorem preset_lookup_witness:
  "snd (loadPreset presetTables 0.2 ''wood'' (init ''gui'' ''stl'')) =
     Logged ''e'' (undefinedPresetMessage ''wood'') \<and>
   snd (loadPreset presetTables 0.2 ''PLA'' (init ''gui'' ''stl'')) =
     Logged ''e'' (undefinedPresetMessage ''PLA'') \<and>
   snd (loadPreset tablesWithoutChange 0.2 ''pla'' (init ''gui'' ''stl'')) =
     Logged ''e'' (missingChangeValueMessage ''pla'') \<and>
   snd (loadPreset presetTables 0.2 ''pla'' (init ''gui'' ''stl'')) =
     LoadStl ''stl'' ''temptower-pla.stl'' \<and>
   self_startTemperature (fst (loadPreset presetTables 0.2 ''pla'' (init ''gui'' ''stl''))) =
     230 \<and>
   self_temperatureChange (fst (loadPreset presetTables 0.2 ''pla'' (init ''gui'' ''stl''))) =
     5"
proof -
  let ?c = "init ''gui'' ''stl''"
  have "presetTables ''wood'' = None" by (simp add: presetTables_def)
  with preset_lookup [of presetTables "0.2" "''wood''" ?c]
  have wood: "snd (loadPreset presetTables 0.2 ''wood'' ?c) =
     Logged ''e'' (undefinedPresetMessage ''wood'')"
    by blast
  have "presetTables ''PLA'' = None" by (simp add: presetTables_def)
  with preset_lookup [of presetTables "0.2" "''PLA''" ?c]
  have upper: "snd (loadPreset presetTables 0.2 ''PLA'' ?c) =
     Logged ''e'' (undefinedPresetMessage ''PLA'')"
    by blast
  have "\<exists>e. tablesWithoutChange ''pla'' = Some e \<and> filename e \<noteq> None \<and>
      start_value e \<noteq> None \<and> change_value e = None"
    by (simp add: tablesWithoutChange_def)
  with preset_lookup [of tablesWithoutChange "0.2" "''pla''" ?c]
  have change: "snd (loadPreset tablesWithoutChange 0.2 ''pla'' ?c) =
     Logged ''e'' (missingChangeValueMessage ''pla'')"
    by blast
  let ?e = "preset ''temptower-pla.stl'' 230 5"
  have "\<forall>e f sv cv.
      presetTables ''pla'' = Some e \<and> filename e = Some f \<and> start_value e = Some sv \<and>
      change_value e = Some cv \<longrightarrow>
      self_startTemperature (fst (loadPreset presetTables 0.2 ''pla'' ?c)) = sv \<and>
      self_temperatureChange (fst (loadPreset presetTables 0.2 ''pla'' ?c)) = cv \<and>
      ((0.2 :: real) \<noteq> 0 \<longrightarrow>
         snd (loadPreset presetTables 0.2 ''pla'' ?c) = LoadStl (self_stlPath ?c) f)"
    using preset_lookup [of presetTables "0.2" "''pla''" ?c] by (elim conjE) assumption
  from this [rule_format, of ?e "''temptower-pla.stl''" 230 5]
  have pla:
    "snd (loadPreset presetTables 0.2 ''pla'' ?c) = LoadStl ''stl'' ''temptower-pla.stl''"
    "self_startTemperature (fst (loadPreset presetTables 0.2 ''pla'' ?c)) = 230"
    "self_temperatureChange (fst (loadPreset presetTables 0.2 ''pla'' ?c)) = 5"
    by (simp_all add: presetTables_pla preset_fields init_def)
  from wood upper change pla show ?thesis by blast
qed

subsection \<open>What a failed preset load leaves behind\<close>




subsection \<open>Injections of the rewriter\<close>

lemma div_pred_dvd:
  fixes s x :: int
  assumes "0 < s" and "s dvd x"
  shows "(x - 1) div s = x div s - 1"
proof -
  from assms(2) obtain k where x: "x = s * k" ..
  have "x - 1 = s * (k - 1) + (s - 1)"
    by (simp add: x algebra_simps)
  then have "(x - 1) div s = k - 1"
    by (rule int_div_pos_eq) (use assms(1) in simp_all)
  moreover have "x div s = k"
    using assms(1) by (simp add: x)
  ultimately show ?thesis by simp
qed

lemma div_pred_not_dvd:
  fixes s x :: int
  assumes "0 < s" and "\<not> s dvd x"
  shows "(x - 1) div s = x div s"
proof -
  have "x mod s \<noteq> 0" using assms(2) by (simp add: dvd_eq_mod_eq_0)
  moreover have "0 \<le> x mod s" "x mod s < s" using assms(1) by simp_all
  ultimately have r: "0 \<le> x mod s - 1" "x mod s - 1 < s" by linarith+
  have "x - 1 = s * (x div s) + (x mod s - 1)" by simp
  then show ?thesis by (rule int_div_pos_eq) (use r in simp_all)
qed


lemma injectionCount_Suc:
  fixes bl sl :: int
  assumes "0 \<le> bl" and "0 < sl"
  shows "injectionCount (int n + 1) bl sl =
    (if bl \<le> int n \<and> sl dvd (int n - bl)
     then injectionCount (int n) bl sl + 1
     else injectionCount (int n) bl sl)"
proof (cases "bl \<le> int n")
  case False
  then show ?thesis by (simp add: injectionCount_def)
next
  case le: True
  show ?thesis
  proof (cases "sl dvd (int n - bl)")
    case True
    from div_pred_dvd [OF assms(2) True]
    have d: "(int n - 1 - bl) div sl = (int n - bl) div sl - 1"
      by (simp add: algebra_simps)
    show ?thesis
    proof (cases "int n = bl")
      case True
      then show ?thesis by (simp add: injectionCount_def)
    next
      case False
      with le have "bl < int n" by simp
      with le True d show ?thesis by (simp add: injectionCount_def)
    qed
  next
    case False
    from div_pred_not_dvd [OF assms(2) False]
    have d: "(int n - 1 - bl) div sl = (int n - bl) div sl"
      by (simp add: algebra_simps)
    from False have "int n \<noteq> bl" by auto
    with le have "bl < int n" by simp
    with le False d show ?thesis by (simp add: injectionCount_def)
  qed
qed

lemma injectionCount_nonneg:
  fixes bl sl :: int
  assumes "0 < sl"
  shows "0 \<le> injectionCount L bl sl"
  using assms by (simp add: injectionCount_def pos_imp_zdiv_nonneg_iff)

lemma injectionCount_dvd:
  fixes bl sl :: int
  assumes "0 < sl" and "bl \<le> int n" and "sl dvd (int n - bl)"
  shows "bl + injectionCount (int n) bl sl * sl = int n"
proof (cases "int n = bl")
  case True
  then show ?thesis by (simp add: injectionCount_def)
next
  case False
  with assms(2) have lt: "bl < int n" by simp
  from div_pred_dvd [OF assms(1,3)]
  have "(int n - 1 - bl) div sl = (int n - bl) div sl - 1"
    by (simp add: algebra_simps)
  with lt have "injectionCount (int n) bl sl = (int n - bl) div sl"
    by (simp add: injectionCount_def)
  with assms(3) show ?thesis by simp
qed

text \<open>The first layers of sections among the layers \<open>0, \<dots>, n - 1\<close>.\<close>

lemma section_starts_upto:
  assumes "0 \<le> baseLayers sch" and "0 < sectionLayers sch"
  shows "filter (firstLayerOfSection sch) [0 .. int n - 1] =
    map (\<lambda>k. baseLayers sch + k * sectionLayers sch)
      [0 .. injectionCount (int n) (baseLayers sch) (sectionLayers sch) - 1]"
proof (induction n)
  case 0
  from assms(1) show ?case by (simp add: injectionCount_def)
next
  case (Suc n)
  let ?count = "injectionCount (int n) (baseLayers sch) (sectionLayers sch)"
  have split: "[0 .. int (Suc n) - 1] = [0 .. int n - 1] @ [int n]"
    using upto_rec2 [of 0 "int n"] by simp
  have count: "injectionCount (int (Suc n)) (baseLayers sch) (sectionLayers sch) =
      (if firstLayerOfSection sch (int n) then ?count + 1 else ?count)"
    using injectionCount_Suc [OF assms, of n]
    by (simp add: firstLayerOfSection_def add.commute)
  show ?case
  proof (cases "firstLayerOfSection sch (int n)")
    case False
    with Suc.IH split count show ?thesis by simp
  next
    case True
    then have n: "baseLayers sch + ?count * sectionLayers sch = int n"
      using injectionCount_dvd [OF assms(2), of "baseLayers sch" n]
      by (simp add: firstLayerOfSection_def)
    have "0 \<le> ?count" using assms(2) by (rule injectionCount_nonneg)
    then have "[0 .. ?count + 1 - 1] = [0 .. ?count - 1] @ [?count]"
      using upto_rec2 [of 0 ?count] by simp
    with Suc.IH split count True n show ?thesis by simp
  qed
qed

lemma currentTemperature_section_start:
  assumes "0 < sectionLayers sch" and "0 \<le> k"
  shows "currentTemperature sch (baseLayers sch + k * sectionLayers sch) =
    startTemperature sch + of_int k * temperatureChange sch"
  using assms by (simp add: currentTemperature_def currentSectionIndex_def)

lemma injections_append: "injections (xs @ ys) = injections xs @ injections ys"
  by (induction xs rule: injections.induct) simp_all

lemma totalLayers_Cons:
  "totalLayers isLayerMarker (line # rest) =
     (if isLayerMarker line then 1 else 0) + totalLayers isLayerMarker rest"
  by (simp add: totalLayers_def)

lemma totalLayers_nonneg: "0 \<le> totalLayers isLayerMarker stream"
  by (simp add: totalLayers_def)

text \<open>
  The pass from layer \<open>i\<close> on injects at the section starts among the layers
  \<open>i, \<dots>, i + L - 1\<close>, \<open>L\<close> the number of markers still to come.
\<close>

lemma injections_scan:
  "injections (scan isLayerMarker sch i stream) =
     map (\<lambda>j. (j, currentTemperature sch j))
       (filter (firstLayerOfSection sch) [i .. i + totalLayers isLayerMarker stream - 1])"
proof (induction stream arbitrary: i)
  case Nil
  show ?case by (simp add: totalLayers_def)
next
  case (Cons line rest)
  show ?case
  proof (cases "isLayerMarker line")
    case False
    with Cons.IH [of i] show ?thesis by (simp add: totalLayers_Cons)
  next
    case True
    have "i \<le> i + totalLayers isLayerMarker rest"
      using totalLayers_nonneg [of isLayerMarker rest] by simp
    then have "[i .. i + (1 + totalLayers isLayerMarker rest) - 1] =
        i # [i + 1 .. i + 1 + totalLayers isLayerMarker rest - 1]"
      using upto_rec1 [of i "i + totalLayers isLayerMarker rest"] by (simp add: algebra_simps)
    with True Cons.IH [of "i + 1"] show ?thesis
      by (simp add: totalLayers_Cons injections_append)
  qed
qed

lemma injections_scan_schedule:
  assumes "0 \<le> baseLayers sch" and "0 < sectionLayers sch"
  shows "injections (scan isLayerMarker sch 0 stream) =
    map (\<lambda>k. (baseLayers sch + k * sectionLayers sch,
               startTemperature sch + of_int k * temperatureChange sch))
      [0 .. injectionCount (totalLayers isLayerMarker stream) (baseLayers sch)
              (sectionLayers sch) - 1]"
proof -
  obtain n where n: "totalLayers isLayerMarker stream = int n"
    by (simp add: totalLayers_def)
  have "injections (scan isLayerMarker sch 0 stream) =
      map (\<lambda>j. (j, currentTemperature sch j))
        (map (\<lambda>k. baseLayers sch + k * sectionLayers sch)
          [0 .. injectionCount (int n) (baseLayers sch) (sectionLayers sch) - 1])"
    using injections_scan [of isLayerMarker sch 0 stream] section_starts_upto [OF assms, of n]
    by (simp add: n)
  also have "\<dots> = map (\<lambda>k. (baseLayers sch + k * sectionLayers sch,
               startTemperature sch + of_int k * temperatureChange sch))
      [0 .. injectionCount (int n) (baseLayers sch) (sectionLayers sch) - 1]"
    using currentTemperature_section_start [OF assms(2)] by simp
  finally show ?thesis by (simp add: n)
qed

lemma length_injections_scan:
  assumes "0 \<le> baseLayers sch" and "0 < sectionLayers sch"
  shows "int (length (injections (scan isLayerMarker sch 0 stream))) =
    injectionCount (totalLayers isLayerMarker stream) (baseLayers sch) (sectionLayers sch)"
  using injectionCount_nonneg [OF assms(2), of "totalLayers isLayerMarker stream" "baseLayers sch"]
  by (simp add: injections_scan_schedule [OF assms])

lemma length_scan:
  "length (scan isLayerMarker sch i stream) =
     length stream + length (injections (scan isLayerMarker sch i stream))"
  by (induction stream arbitrary: i) (simp_all add: injections_append)

lemma firstLayerOfSection_iff:
  assumes "0 \<le> sectionLayers sch"
  shows "firstLayerOfSection sch i \<longleftrightarrow>
    (\<exists>sectionIndex\<ge>0. i = baseLayers sch + sectionIndex * sectionLayers sch)"
proof
  assume "firstLayerOfSection sch i"
  then have le: "baseLayers sch \<le> i" and "sectionLayers sch dvd (i - baseLayers sch)"
    by (simp_all add: firstLayerOfSection_def)
  then obtain k where k: "i - baseLayers sch = sectionLayers sch * k" by (auto elim: dvdE)
  show "\<exists>sectionIndex\<ge>0. i = baseLayers sch + sectionIndex * sectionLayers sch"
  proof (cases "sectionLayers sch = 0")
    case True
    with k have "i = baseLayers sch + 0 * sectionLayers sch" by simp
    then show ?thesis by blast
  next
    case False
    with assms have pos: "0 < sectionLayers sch" by simp
    from le k have "0 \<le> sectionLayers sch * k" by simp
    with pos have "0 \<le> k" by (simp add: zero_le_mult_iff)
    moreover from k have "i = baseLayers sch + k * sectionLayers sch" by (simp add: algebra_simps)
    ultimately show ?thesis by blast
  qed
next
  assume "\<exists>sectionIndex\<ge>0. i = baseLayers sch + sectionIndex * sectionLayers sch"
  then obtain k where "0 \<le> k" and "i = baseLayers sch + k * sectionLayers sch" by blast
  with assms show "firstLayerOfSection sch i"
    by (simp add: firstLayerOfSection_def)
qed


lemma rewrite_cases:
  "rewrite isLayerMarker temperatureInstruction sch stream =
    (if totalLayers isLayerMarker stream = 0 then Inl MalformedInstructionStream
     else Inr (map (render temperatureInstruction) (scan isLayerMarker sch 0 stream)))"
proof -
  have "list_ex isLayerMarker stream \<longleftrightarrow> totalLayers isLayerMarker stream \<noteq> 0"
    by (auto simp add: totalLayers_def list_ex_iff filter_empty_conv)
  then show ?thesis by (simp add: rewrite_def)
qed

lemma length_rewritten:
  assumes "0 \<le> baseLayers sch" and "0 < sectionLayers sch"
  shows "int (length (map (render temperatureInstruction) (scan isLayerMarker sch 0 stream))) =
      int (length stream) +
      injectionCount (totalLayers isLayerMarker stream) (baseLayers sch) (sectionLayers sch)"
  using length_injections_scan [OF assms, of isLayerMarker stream]
    length_scan [of isLayerMarker sch 0 stream]
  by simp

lemma totalLayers_sampleStream: "totalLayers sampleMarker (sampleStream n) = int n"
  by (induction n) (simp_all add: totalLayers_def sampleStream_def sampleMarker_def)

lemma length_sampleStream: "length (sampleStream n) = 2 * n"
  by (induction n) (simp_all add: sampleStream_def)

lemma sampleSchedule_fields:
  "baseLayers sampleSchedule = 4" "sectionLayers sampleSchedule = 40"
  "startTemperature sampleSchedule = 230" "temperatureChange sampleSchedule = - 5"
  by (simp_all add: sampleSchedule_def)

lemma two_sections: "[0 .. 1 :: int] = [0, 1]"
  by (simp add: upto.simps)

text \<open>
  A stream of 84 layers under the schedule of 4 base layers and 40 layers per section:
  the pass injects twice, at the layers 4 and 44, while the specification's formula
  \<open>floor((L - baseLayers) / sectionLayers) + 1\<close> gives 3.
\<close>

theorem injection_count_counterexample:
  "totalLayers sampleMarker (sampleStream 84) = 84 \<and>
   injections (scan sampleMarker sampleSchedule 0 (sampleStream 84)) = [(4, 230), (44, 225)] \<and>
   int (length (injections (scan sampleMarker sampleSchedule 0 (sampleStream 84)))) = 2 \<and>
   specInjectionCount 84 (baseLayers sampleSchedule) (sectionLayers sampleSchedule) = 3"
proof -
  have L: "totalLayers sampleMarker (sampleStream 84) = 84"
    using totalLayers_sampleStream [of 84] by simp
  have count: "injectionCount 84 4 40 = 2"
    by (simp add: injectionCount_def)
  have inj: "injections (scan sampleMarker sampleSchedule 0 (sampleStream 84)) =
      [(4, 230), (44, 225)]"
    using injections_scan_schedule [of sampleSchedule sampleMarker "sampleStream 84"]
    by (simp add: sampleSchedule_fields L count two_sections)
  have "specInjectionCount 84 (baseLayers sampleSchedule) (sectionLayers sampleSchedule) = 3"
    by (simp add: specInjectionCount_def sampleSchedule_fields)
  with L inj show ?thesis by simp
qed

text \<open>
  C4 (amended). For a schedule with \<open>baseLayers \<ge> 0\<close> and \<open>sectionLayers > 0\<close> and a
  stream of \<open>L\<close> layers, the rewriter injects
  \<open>floor((L - 1 - baseLayers) / sectionLayers) + 1\<close> temperature instructions when
  \<open>L > baseLayers\<close> and none otherwise; injection \<open>k\<close> (from 0) is at layer
  \<open>baseLayers + k * sectionLayers\<close> with the temperature
  \<open>startTemperature + k * temperatureChange\<close>; the rewritten stream is longer than the
  input by that number of lines, and the rewriter fails exactly on a stream without a
  marker. For the layer height 0.2 the counts are 4 and 40, and with the start 230 and
  the change -5 a stream of 84 layers gets exactly two injections: 230 at layer 4 and 225
  at layer 44.
\<close>

theorem injection_count:
  assumes "0 \<le> baseLayers sch" and "0 < sectionLayers sch"
    and "L = totalLayers isLayerMarker stream"
  shows "int (length (injections (scan isLayerMarker sch 0 stream))) =
           (if L > baseLayers sch then (L - 1 - baseLayers sch) div sectionLayers sch + 1
            else 0) \<and>
         injections (scan isLayerMarker sch 0 stream) =
           map (\<lambda>k. (baseLayers sch + k * sectionLayers sch,
                      startTemperature sch + of_int k * temperatureChange sch))
             [0 .. injectionCount L (baseLayers sch) (sectionLayers sch) - 1] \<and>
         (case rewrite isLayerMarker temperatureInstruction sch stream of
            Inl e \<Rightarrow> L = 0
          | Inr out \<Rightarrow>
              0 < L \<and>
              int (length out) =
                int (length stream) + injectionCount L (baseLayers sch) (sectionLayers sch)) \<and>
         (L = 84 \<and> baseLayers sch = 4 \<and> sectionLayers sch = 40 \<and>
          startTemperature sch = 230 \<and> temperatureChange sch = - 5 \<longrightarrow>
            injections (scan isLayerMarker sch 0 stream) = [(4, 230), (44, 225)]) \<and>
         ceilLayers nominalBaseHeight 0.2 = Inr 4 \<and>
         ceilLayers nominalSectionHeight 0.2 = Inr 40"
proof (intro conjI impI)
  show "int (length (injections (scan isLayerMarker sch 0 stream))) =
      (if L > baseLayers sch then (L - 1 - baseLayers sch) div sectionLayers sch + 1 else 0)"
    using length_injections_scan [OF assms(1,2), of isLayerMarker stream] assms(3)
    by (simp add: injectionCount_def)
  show inj: "injections (scan isLayerMarker sch 0 stream) =
      map (\<lambda>k. (baseLayers sch + k * sectionLayers sch,
                 startTemperature sch + of_int k * temperatureChange sch))
        [0 .. injectionCount L (baseLayers sch) (sectionLayers sch) - 1]"
    unfolding assms(3) using assms(1,2) by (rule injections_scan_schedule)
  show "case rewrite isLayerMarker temperatureInstruction sch stream of
          Inl e \<Rightarrow> L = 0
        | Inr out \<Rightarrow>
            0 < L \<and>
            int (length out) =
              int (length stream) + injectionCount L (baseLayers sch) (sectionLayers sch)"
    using rewrite_cases [of isLayerMarker temperatureInstruction sch stream]
      length_rewritten [OF assms(1,2), of temperatureInstruction isLayerMarker stream]
      totalLayers_nonneg [of isLayerMarker stream]
    by (simp add: assms(3))
  show "ceilLayers nominalBaseHeight 0.2 = Inr 4"
    by (simp add: ceilLayers_def nominalBaseHeight_def)
  show "ceilLayers nominalSectionHeight 0.2 = Inr 40"
    by (simp add: ceilLayers_def nominalSectionHeight_def)
  assume c: "L = 84 \<and> baseLayers sch = 4 \<and> sectionLayers sch = 40 \<and>
      startTemperature sch = 230 \<and> temperatureChange sch = - 5"
  have "injectionCount 84 4 40 = 2"
    by (simp add: injectionCount_def)
  with inj c show "injections (scan isLayerMarker sch 0 stream) = [(4, 230), (44, 225)]"
    by (simp add: two_sections)
qed

theorem injection_count_witness:
  "int (length (injections (scan sampleMarker sampleSchedule 0 (sampleStream 84)))) = 2 \<and>
   injections (scan sampleMarker sampleSchedule 0 (sampleStream 84)) = [(4, 230), (44, 225)] \<and>
   (case rewrite sampleMarker sampleInstruction sampleSchedule (sampleStream 84) of
      Inl e \<Rightarrow> False
    | Inr out \<Rightarrow> length out = 170)"
proof -
  have L: "84 = totalLayers sampleMarker (sampleStream 84)"
    using totalLayers_sampleStream [of 84] by simp
  have len: "length (sampleStream 84) = 168"
    using length_sampleStream [of 84] by simp
  have count: "injectionCount 84 4 40 = 2"
    by (simp add: injectionCount_def)
  have "0 \<le> baseLayers sampleSchedule" "0 < sectionLayers sampleSchedule"
    by (simp_all add: sampleSchedule_fields)
  from injection_count [OF this L, of sampleInstruction] show ?thesis
    by (simp add: sampleSchedule_fields len count two_sections split: sum.splits)
qed

end
